theory Spec2Isabelle
  imports Complex_Main "HOL-Library.Word"
begin

section \<open>Gas estimation for EntryPoint 0.7 user operations\<close>

text \<open>
  A shallow embedding of the gas-estimation module: the default
  \<open>preVerificationGas\<close> model (\<open>calcDefaultPreVerificationGas\<close>), the worst-case
  canonicalizer (\<open>packedUserOperationToRandomDataUserOp\<close>), the chain dispatcher
  (\<open>calcPreVerificationGas\<close>), the Optimism and Arbitrum surcharge calculators, the
  post-simulation limit deriver (\<open>calcVerificationGasAndCallGasLimit\<close>) and the error
  normalizer (\<open>parseViemError\<close>).

  Conventions. A function that may raise returns a sum, \<open>Inl\<close> the error. An
  asynchronous function returns, with its outcome, the list of the network calls it
  made. A BigInt is an \<open>int\<close>, or a \<open>nat\<close> where the value is an unsigned quantity
  decoded from the chain or a field of a user operation; a JavaScript number is an exact
  rational. The logger has no part in any result and is left out.
\<close>

subsection \<open>Bytes and hex values\<close>

text \<open>
  A \<open>Hex\<close> value of the source is a string \<open>0x\<close> followed by two hexadecimal digits
  per byte. It is modelled by the bytes it denotes; \<open>hex_string_length\<close> is what the
  JavaScript property \<open>.length\<close> returns on such a string: the number of characters,
  not the number of bytes.
\<close>

type_synonym byte = "8 word"
type_synonym hex = "byte list"
type_synonym address = "160 word"

definition hex_string_length :: "hex \<Rightarrow> nat" where
  "hex_string_length h = 2 + 2 * length h"

text \<open>\<open>numberToHex(n, {size: k})\<close> read as bytes: \<open>k\<close> bytes, big-endian.\<close>

fun be_bytes :: "nat \<Rightarrow> nat \<Rightarrow> byte list" where
  "be_bytes 0 n = []"
| "be_bytes (Suc k) n = be_bytes k (n div 256) @ [of_nat (n mod 256)]"

text \<open>\<open>bytesToHex(new Uint8Array(n).fill(255))\<close>\<close>

definition ff_bytes :: "nat \<Rightarrow> hex" where
  "ff_bytes n = replicate n 255"

subsection \<open>The ABI encoding of a parameter list\<close>

text \<open>
  \<open>encodeAbiParameters\<close> belongs to the viem library. It is modelled for the four
  parameter types \<open>packUserOp\<close> uses, after the contract ABI: a static parameter
  takes one 32-byte word in the head (an address and an unsigned integer are padded on
  the left, a \<open>bytes32\<close> on the right), a \<open>bytes\<close> parameter takes a 32-byte offset in
  the head and, in the tail, its length as a 32-byte word followed by its bytes padded
  on the right to a multiple of 32.
\<close>

datatype abi_value =
    AbiAddress address
  | AbiUint256 nat
  | AbiBytes32 hex
  | AbiBytes hex

definition pad_right32 :: "hex \<Rightarrow> hex" where
  "pad_right32 h = h @ replicate ((32 - length h mod 32) mod 32) 0"

fun is_dynamic :: "abi_value \<Rightarrow> bool" where
  "is_dynamic (AbiBytes h) = True"
| "is_dynamic v = False"

fun encode_static :: "abi_value \<Rightarrow> hex" where
  "encode_static (AbiAddress a) = be_bytes 32 (unat a)"
| "encode_static (AbiUint256 n) = be_bytes 32 n"
| "encode_static (AbiBytes32 h) = pad_right32 h"
| "encode_static (AbiBytes h) = []"

fun encode_dynamic :: "abi_value \<Rightarrow> hex" where
  "encode_dynamic (AbiBytes h) = be_bytes 32 (length h) @ pad_right32 h"
| "encode_dynamic v = []"

text \<open>
  The head: \<open>off\<close> is the static size plus the size of the tails written so far.
\<close>

fun encode_heads :: "nat \<Rightarrow> abi_value list \<Rightarrow> hex" where
  "encode_heads off [] = []"
| "encode_heads off (v # vs) =
     (if is_dynamic v
      then be_bytes 32 off @ encode_heads (off + length (encode_dynamic v)) vs
      else encode_static v @ encode_heads off vs)"

definition encodeAbiParameters :: "abi_value list \<Rightarrow> hex" where
  "encodeAbiParameters vs =
     encode_heads (32 * length vs) vs @ concat (map encode_dynamic vs)"

subsection \<open>User operations\<close>

text \<open>
  The packed operation, with the nine fields the source reads and writes. The byte
  fields are hex values; \<open>accountGasLimits\<close> and \<open>gasFees\<close> hold 32 bytes.
\<close>

record PackedUserOperation =
  sender :: address
  nonce :: nat
  initCode :: hex
  callData :: hex
  accountGasLimits :: hex
  preVerificationGas :: nat
  gasFees :: hex
  paymasterAndData :: hex
  signature :: hex

text \<open>
  Modelled from the spec: the type \<open>UnPackedUserOperation\<close> (module
  \<open>entrypoint-0.7/types\<close>) is missing from the sources. The spec's data model gives an
  operation a sender, a nonce, an init code, a call data, two gas limits,
  \<open>preVerificationGas\<close>, two fee fields, the paymaster fields (address, the two
  paymaster gas limits and the paymaster data) and a signature; all integers are
  unsigned, all byte sequences may be empty.
\<close>

record Paymaster =
  paymaster :: address
  paymasterVerificationGasLimit :: nat
  paymasterPostOpGasLimit :: nat
  paymasterData :: hex

text \<open>
  The unpacked operation, with the fields of the data model. Its fields carry the
  prefix \<open>op_\<close>, the names without prefix being those of the packed operation.
\<close>

record UnPackedUserOperation =
  op_sender :: address
  op_nonce :: nat
  op_initCode :: hex
  op_callData :: hex
  op_verificationGasLimit :: nat
  op_callGasLimit :: nat
  op_preVerificationGas :: nat
  op_maxFeePerGas :: nat
  op_maxPriorityFeePerGas :: nat
  op_paymaster :: "Paymaster option"
  op_signature :: hex

text \<open>
  Modelled from the spec: \<open>toPackedUserOperation\<close> (module \<open>./userop\<close>) is missing from
  the sources. The spec's data model: the packed operation is derived deterministically
  from the unpacked one, the gas-limit pairs are concatenated into single 32-byte words
  (\<open>accountGasLimits\<close>, \<open>gasFees\<close>), the paymaster fields are concatenated into one
  \<open>paymasterAndData\<close> byte sequence (empty when there is no paymaster), and sender,
  nonce, init code, call data, \<open>preVerificationGas\<close> and signature are carried over.
\<close>

definition toPackedUserOperation :: "UnPackedUserOperation \<Rightarrow> PackedUserOperation" where
  "toPackedUserOperation op =
     \<lparr> sender = op_sender op,
       nonce = op_nonce op,
       initCode = op_initCode op,
       callData = op_callData op,
       accountGasLimits =
         be_bytes 16 (op_verificationGasLimit op) @ be_bytes 16 (op_callGasLimit op),
       preVerificationGas = op_preVerificationGas op,
       gasFees =
         be_bytes 16 (op_maxPriorityFeePerGas op) @ be_bytes 16 (op_maxFeePerGas op),
       paymasterAndData =
         (case op_paymaster op of
            None \<Rightarrow> []
          | Some pm \<Rightarrow>
              be_bytes 20 (unat (paymaster pm))
              @ be_bytes 16 (paymasterVerificationGasLimit pm)
              @ be_bytes 16 (paymasterPostOpGasLimit pm)
              @ paymasterData pm),
       signature = op_signature op \<rparr>"

subsection \<open>The worst-case canonicalizer\<close>

text \<open>
  The literal of the source, \<open>0x\<close> followed by 62 digits \<open>F\<close>: the integer
  \<open>2 ^ 248 - 1\<close>.
\<close>

definition random_uint :: nat where
  "random_uint = 2 ^ 248 - 1"

text \<open>
  \<open>paymasterAndData\<close> and \<open>signature\<close> of the packed operation are hex strings, and the
  source sizes the two arrays of \<open>0xFF\<close> by their \<open>.length\<close>.
\<close>

definition packedUserOperationToRandomDataUserOp ::
  "PackedUserOperation \<Rightarrow> PackedUserOperation" where
  "packedUserOperationToRandomDataUserOp packedUserOperation =
     \<lparr> sender = sender packedUserOperation,
       nonce = random_uint,
       initCode = initCode packedUserOperation,
       callData = callData packedUserOperation,
       accountGasLimits = ff_bytes 32,
       preVerificationGas = random_uint,
       gasFees = ff_bytes 32,
       paymasterAndData =
         ff_bytes (hex_string_length (paymasterAndData packedUserOperation)),
       signature = ff_bytes (hex_string_length (signature packedUserOperation)) \<rparr>"

definition packUserOp :: "UnPackedUserOperation \<Rightarrow> hex" where
  "packUserOp op =
     (let packedUserOperation = toPackedUserOperation op;
          randomDataUserOp = packedUserOperationToRandomDataUserOp packedUserOperation
      in encodeAbiParameters
           [ AbiAddress (sender randomDataUserOp),
             AbiUint256 (nonce randomDataUserOp),
             AbiBytes (initCode packedUserOperation),
             AbiBytes (callData packedUserOperation),
             AbiBytes32 (accountGasLimits randomDataUserOp),
             AbiUint256 (preVerificationGas randomDataUserOp),
             AbiBytes32 (gasFees randomDataUserOp),
             AbiBytes (paymasterAndData randomDataUserOp),
             AbiBytes (signature randomDataUserOp) ])"

subsection \<open>Gas overheads\<close>

text \<open>
  The overheads are JavaScript numbers. They are modelled as exact rationals: sums,
  products and quotients are exact, and a division by zero, which in JavaScript gives
  an infinity or NaN, is a case of its own. The rounding of doubles and their overflow
  to an infinity are not modelled, so the model is the source where every intermediate
  value is a double the source computes exactly: that is so at the default overheads,
  whose values and sums are small integers and multiples of \<open>1 / 32\<close>. Every property
  below about the value of the result is stated at the default overheads. \<open>sigSize\<close>,
  the size of a buffer, is a natural number.
\<close>

type_synonym number = rat

record GasOverheads =
  fixed :: number
  perUserOp :: number
  perUserOpWord :: number
  zeroByte :: number
  nonZeroByte :: number
  bundleSize :: number
  sigSize :: nat

definition DefaultGasOverheads :: GasOverheads where
  "DefaultGasOverheads =
     \<lparr> fixed = 21000, perUserOp = 18300, perUserOpWord = 4, zeroByte = 4,
       nonZeroByte = 16, bundleSize = 1, sigSize = 65 \<rparr>"

text \<open>
  \<open>Partial<GasOverheads>\<close>: every field may be absent. A field that is present with
  the value \<open>undefined\<close> is not modelled.
\<close>

record PartialGasOverheads =
  fixed_opt :: "number option"
  perUserOp_opt :: "number option"
  perUserOpWord_opt :: "number option"
  zeroByte_opt :: "number option"
  nonZeroByte_opt :: "number option"
  bundleSize_opt :: "number option"
  sigSize_opt :: "nat option"

definition or_default :: "'a \<Rightarrow> 'a option \<Rightarrow> 'a" where
  "or_default d x = (case x of None \<Rightarrow> d | Some v \<Rightarrow> v)"

text \<open>The object spread \<open>{ ...DefaultGasOverheads, ...(overheads ?? {}) }\<close>.\<close>

definition merge_overheads :: "PartialGasOverheads option \<Rightarrow> GasOverheads" where
  "merge_overheads overheads =
     (case overheads of
        None \<Rightarrow> DefaultGasOverheads
      | Some p \<Rightarrow>
          \<lparr> fixed = or_default (fixed DefaultGasOverheads) (fixed_opt p),
            perUserOp = or_default (perUserOp DefaultGasOverheads) (perUserOp_opt p),
            perUserOpWord =
              or_default (perUserOpWord DefaultGasOverheads) (perUserOpWord_opt p),
            zeroByte = or_default (zeroByte DefaultGasOverheads) (zeroByte_opt p),
            nonZeroByte = or_default (nonZeroByte DefaultGasOverheads) (nonZeroByte_opt p),
            bundleSize = or_default (bundleSize DefaultGasOverheads) (bundleSize_opt p),
            sigSize = or_default (sigSize DefaultGasOverheads) (sigSize_opt p) \<rparr>)"

subsection \<open>Errors\<close>

text \<open>
  Modelled from the spec: the class \<open>RpcError\<close> (module \<open>entrypoint-0.7/types\<close>) is
  missing from the sources. The spec has the failure it carries as a named failure of
  its own, apart from the failures of the transport; it is a constructor of its own
  here, with the message the source gives it.

  \<open>RangeError\<close> is what JavaScript raises for a BigInt division by zero and for
  \<open>BigInt\<close> of a number that is not an integer. \<open>ClientError\<close> stands for any failure
  raised by the external client (transport, node or contract call), which the source
  lets through.
\<close>

datatype error =
    RpcError string
  | RangeError string
  | ClientError string

subsection \<open>The default model\<close>

text \<open>
  The element conversion of a \<open>Uint8Array\<close>: the number is truncated towards zero and
  taken modulo 256. \<open>packed.map\<close> of the source is the \<open>map\<close> of a \<open>Uint8Array\<close>, whose
  result is a \<open>Uint8Array\<close> again.
\<close>

definition truncate_number :: "number \<Rightarrow> int" where
  "truncate_number x = (if 0 \<le> x then \<lfloor>x\<rfloor> else \<lceil>x\<rceil>)"

definition to_uint8 :: "number \<Rightarrow> nat" where
  "to_uint8 x = nat (truncate_number x mod 256)"

definition byte_costs :: "GasOverheads \<Rightarrow> hex \<Rightarrow> nat list" where
  "byte_costs ov packed =
     map (\<lambda>x. to_uint8 (if x = 0 then zeroByte ov else nonZeroByte ov)) packed"

text \<open>\<open>Math.round\<close>: the nearest integer, a half going up.\<close>

definition math_round :: "number \<Rightarrow> int" where
  "math_round x = \<lfloor>x + 1 / 2\<rfloor>"

text \<open>
  \<open>BigInt\<close> of a number that is not an integer raises a \<open>RangeError\<close>, whose message
  names the number.
\<close>

definition not_an_integer :: "string \<Rightarrow> error" where
  "not_an_integer shown =
     RangeError
       (''The number '' @ shown
         @ '' cannot be converted to a BigInt because it is not an integer'')"

text \<open>
  The statement \<open>uop.preVerificationGas ?? 21000n\<close> of the source has no effect.
  \<open>lengthInWord\<close> is a quotient of JavaScript numbers. With \<open>bundleSize = 0\<close> (the
  rational zero stands for the positive zero) the quotient \<open>fixed / bundleSize\<close> is
  NaN when \<open>fixed\<close> is zero and otherwise the infinity of the sign of \<open>fixed\<close>, so is
  the rounded sum, and \<open>BigInt\<close> raises. The encoding is never empty, so \<open>reduce\<close>
  without an initial value is the sum.
\<close>

definition calcDefaultPreVerificationGas ::
  "UnPackedUserOperation \<Rightarrow> PartialGasOverheads option \<Rightarrow> error + int" where
  "calcDefaultPreVerificationGas userOperation overheads =
     (let ov = merge_overheads overheads;
          uop = userOperation
            \<lparr> op_signature :=
                (if op_signature userOperation = []
                 then replicate (sigSize ov) 1
                 else op_signature userOperation) \<rparr>;
          packed = packUserOp uop;
          lengthInWord = (of_nat (length packed) + 31) / 32;
          callDataCost = of_nat (sum_list (byte_costs ov packed))
      in if bundleSize ov = 0
         then Inl (not_an_integer
                (if fixed ov = 0 then ''NaN''
                 else if 0 < fixed ov then ''Infinity'' else ''-Infinity''))
         else Inr (math_round
                (callDataCost + fixed ov / bundleSize ov + perUserOp ov
                  + perUserOpWord ov * lengthInWord)))"

subsection \<open>BigInt division\<close>

text \<open>
  The quotient of two BigInts is rounded towards zero, and a zero divisor raises a
  \<open>RangeError\<close>.
\<close>

definition bigint_quot :: "int \<Rightarrow> int \<Rightarrow> int" where
  "bigint_quot a b = sgn a * sgn b * (\<bar>a\<bar> div \<bar>b\<bar>)"

definition bigint_div :: "int \<Rightarrow> int \<Rightarrow> error + int" where
  "bigint_div a b =
     (if b = 0 then Inl (RangeError ''Division by zero'') else Inr (bigint_quot a b))"

subsection \<open>The external collaborators\<close>

text \<open>
  The client is modelled by its responses. A block carries its base fee or none; the
  oracle's \<open>getL1Fee\<close> and the precompile's \<open>gasEstimateL1Component\<close> answer a
  simulated call, or fail. The quantities they return are decoded unsigned integers.
  \<open>chain\<close> is the identifier of the client's chain: an integer where the client's type
  has a chain, an optional integer where it may be undefined.

  Modelled from the spec: \<open>getGasPrice\<close> (module \<open>./gasPrice\<close>) is missing from the
  sources. The spec's gas price collaborator returns a sample
  \<open>{maxFeePerGas, maxPriorityFeePerGas}\<close>, fetched fresh per calculation; it is a
  response of the client here.
\<close>

record Block =
  baseFeePerGas :: "nat option"

record GasPriceSample =
  maxFeePerGas :: nat
  maxPriorityFeePerGas :: nat

record 'chain PublicClient =
  chain :: 'chain
  getBlock :: "error + Block"
  getL1Fee :: "hex \<Rightarrow> error + nat"
  gasEstimateL1Component :: "address \<Rightarrow> bool \<Rightarrow> hex \<Rightarrow> error + nat \<times> nat \<times> nat"
  getGasPrice :: "error + GasPriceSample"

text \<open>
  A client whose chain is defined, passed where the chain may be undefined.
\<close>

definition with_optional_chain :: "int PublicClient \<Rightarrow> int option PublicClient" where
  "with_optional_chain c =
     \<lparr> chain = Some (chain c), getBlock = getBlock c, getL1Fee = getL1Fee c,
       gasEstimateL1Component = gasEstimateL1Component c, getGasPrice = getGasPrice c \<rparr>"

text \<open>The network calls a computation makes, in order.\<close>

datatype call =
    GetBlock
  | SimulateGetL1Fee hex
  | GetGasPrice
  | SimulateGasEstimateL1Component address bool hex

type_synonym 'a outcome = "(error + 'a) \<times> call list"

text \<open>
  The library functions the calculators call, taken as parameters: the selector of the
  entry point's function \<open>EntryPointAbi[28]\<close>, the ABI encoding of its inputs (the
  operations and an address), and the serialization of a signed legacy transaction.
\<close>

record Transaction =
  tx_to :: address
  tx_chainId :: int
  tx_nonce :: nat
  tx_gasLimit :: nat
  tx_gasPrice :: nat
  tx_data :: hex

record TxSignature =
  sig_r :: hex
  sig_s :: hex
  sig_v :: nat

record Library =
  getFunctionSelector :: hex
  encodeInputs :: "PackedUserOperation list \<Rightarrow> address \<Rightarrow> hex"
  serializeTransaction :: "Transaction \<Rightarrow> TxSignature \<Rightarrow> hex"

definition maxUint64 :: nat where
  "maxUint64 = 2 ^ 64 - 1"

text \<open>The literal \<open>0x\<close> followed by twelve times \<open>12345\<close>: thirty bytes.\<close>

definition placeholder_rs :: hex where
  "placeholder_rs = concat (replicate 6 [0x12, 0x34, 0x51, 0x23, 0x45])"

definition placeholder_signature :: TxSignature where
  "placeholder_signature = \<lparr> sig_r = placeholder_rs, sig_s = placeholder_rs, sig_v = 28 \<rparr>"

definition handleOps_data :: "Library \<Rightarrow> UnPackedUserOperation \<Rightarrow> address \<Rightarrow> hex" where
  "handleOps_data lib op entryPoint =
     (let packedUserOperation = toPackedUserOperation op;
          randomDataUserOp = packedUserOperationToRandomDataUserOp packedUserOperation;
          selector = getFunctionSelector lib;
          paramData = encodeInputs lib [randomDataUserOp] entryPoint
      in selector @ paramData)"

definition synthetic_tx :: "Library \<Rightarrow> address \<Rightarrow> int \<Rightarrow> hex \<Rightarrow> hex" where
  "synthetic_tx lib entryPoint chainId data =
     serializeTransaction lib
       \<lparr> tx_to = entryPoint, tx_chainId = chainId, tx_nonce = 999999,
         tx_gasLimit = maxUint64, tx_gasPrice = maxUint64, tx_data = data \<rparr>
       placeholder_signature"

subsection \<open>The Optimism surcharge calculator\<close>

definition opGasPriceOracle_serializedTx ::
  "Library \<Rightarrow> int PublicClient \<Rightarrow> UnPackedUserOperation \<Rightarrow> address \<Rightarrow> hex" where
  "opGasPriceOracle_serializedTx lib publicClient op entryPoint =
     synthetic_tx lib entryPoint (chain publicClient) (handleOps_data lib op entryPoint)"

definition calcOptimismPreVerificationGas ::
  "Library \<Rightarrow> int PublicClient \<Rightarrow> UnPackedUserOperation \<Rightarrow> address \<Rightarrow> int \<Rightarrow> int outcome"
  where
  "calcOptimismPreVerificationGas lib publicClient op entryPoint staticFee =
     (case getBlock publicClient of
        Inl e \<Rightarrow> (Inl e, [GetBlock])
      | Inr latestBlock \<Rightarrow>
          (case baseFeePerGas latestBlock of
             None \<Rightarrow> (Inl (RpcError ''block does not have baseFeePerGas''), [GetBlock])
           | Some blockBaseFee \<Rightarrow>
               (let serializedTx = opGasPriceOracle_serializedTx lib publicClient op entryPoint
                in case getL1Fee publicClient serializedTx of
                     Inl e \<Rightarrow> (Inl e, [GetBlock, SimulateGetL1Fee serializedTx])
                   | Inr l1Fee \<Rightarrow>
                       (case getGasPrice publicClient of
                          Inl e \<Rightarrow>
                            (Inl e, [GetBlock, SimulateGetL1Fee serializedTx, GetGasPrice])
                        | Inr gasPrice \<Rightarrow>
                            (let l2MaxFee = maxFeePerGas gasPrice;
                                 l2PriorityFee = blockBaseFee + maxPriorityFeePerGas gasPrice;
                                 l2price =
                                   (if l2MaxFee < l2PriorityFee then l2MaxFee
                                    else l2PriorityFee)
                             in (case bigint_div (int l1Fee) (int l2price) of
                                   Inl e \<Rightarrow> Inl e
                                 | Inr q \<Rightarrow> Inr (staticFee + q),
                                 [GetBlock, SimulateGetL1Fee serializedTx, GetGasPrice]))))))"

subsection \<open>The Arbitrum surcharge calculator\<close>

definition arbGasPriceOracle_serializedTx ::
  "Library \<Rightarrow> int option PublicClient \<Rightarrow> UnPackedUserOperation \<Rightarrow> address \<Rightarrow> hex" where
  "arbGasPriceOracle_serializedTx lib publicClient op entryPoint =
     synthetic_tx lib entryPoint
       (case chain publicClient of None \<Rightarrow> 10 | Some c \<Rightarrow> c)
       (handleOps_data lib op entryPoint)"

definition calcArbitrumPreVerificationGas ::
  "Library \<Rightarrow> int option PublicClient \<Rightarrow> UnPackedUserOperation \<Rightarrow> address \<Rightarrow> int
     \<Rightarrow> int outcome" where
  "calcArbitrumPreVerificationGas lib publicClient op entryPoint staticFee =
     (let serializedTx = arbGasPriceOracle_serializedTx lib publicClient op entryPoint
      in (case gasEstimateL1Component publicClient entryPoint False serializedTx of
            Inl e \<Rightarrow> Inl e
          | Inr result \<Rightarrow> Inr (int (fst result) + staticFee),
          [SimulateGasEstimateL1Component entryPoint False serializedTx]))"

subsection \<open>The chain dispatcher\<close>

text \<open>
  The chain identifiers of \<open>viem/chains\<close> the source names, taken as a parameter;
  \<open>viem_chains\<close> holds the values the library gives them.
\<close>

record Chains =
  optimism :: int
  optimismSepolia :: int
  optimismGoerli :: int
  base :: int
  baseGoerli :: int
  baseSepolia :: int
  opBNB :: int
  opBNBTestnet :: int
  arbitrum :: int

definition viem_chains :: Chains where
  "viem_chains =
     \<lparr> optimism = 10, optimismSepolia = 11155420, optimismGoerli = 420, base = 8453,
       baseGoerli = 84531, baseSepolia = 84532, opBNB = 204, opBNBTestnet = 5611,
       arbitrum = 42161 \<rparr>"

definition as_partial :: "GasOverheads \<Rightarrow> PartialGasOverheads" where
  "as_partial ov =
     \<lparr> fixed_opt = Some (fixed ov), perUserOp_opt = Some (perUserOp ov),
       perUserOpWord_opt = Some (perUserOpWord ov), zeroByte_opt = Some (zeroByte ov),
       nonZeroByte_opt = Some (nonZeroByte ov), bundleSize_opt = Some (bundleSize ov),
       sigSize_opt = Some (sigSize ov) \<rparr>"

definition calcPreVerificationGas ::
  "Chains \<Rightarrow> Library \<Rightarrow> int PublicClient \<Rightarrow> UnPackedUserOperation \<Rightarrow> address \<Rightarrow> int
     \<Rightarrow> GasOverheads option \<Rightarrow> int outcome" where
  "calcPreVerificationGas chainIds lib publicClient userOperation entryPoint chainId overheads =
     (case calcDefaultPreVerificationGas userOperation (map_option as_partial overheads) of
        Inl e \<Rightarrow> (Inl e, [])
      | Inr preVerificationGas0 \<Rightarrow>
          if chainId = 59140 \<or> chainId = 59142 then (Inr (preVerificationGas0 * 2), [])
          else if chainId = optimism chainIds \<or> chainId = optimismSepolia chainIds
                \<or> chainId = optimismGoerli chainIds \<or> chainId = base chainIds
                \<or> chainId = baseGoerli chainIds \<or> chainId = baseSepolia chainIds
                \<or> chainId = opBNB chainIds \<or> chainId = opBNBTestnet chainIds
                \<or> chainId = 957
          then calcOptimismPreVerificationGas lib publicClient userOperation entryPoint
                 preVerificationGas0
          else if chainId = arbitrum chainIds
          then calcArbitrumPreVerificationGas lib (with_optional_chain publicClient)
                 userOperation entryPoint preVerificationGas0
          else (Inr preVerificationGas0, []))"

subsection \<open>The post-simulation limit deriver\<close>

record ExecutionResult =
  preOpGas :: int
  paid :: int

text \<open>
  The gas price of the source's \<open>let gasPrice\<close>: the block is read only when the two
  fee fields differ.
\<close>

definition effective_gasPrice :: "'c PublicClient \<Rightarrow> UnPackedUserOperation \<Rightarrow> int outcome" where
  "effective_gasPrice publicClient userOperation =
     (if op_maxPriorityFeePerGas userOperation = op_maxFeePerGas userOperation
      then (Inr (int (op_maxFeePerGas userOperation)), [])
      else
        (case getBlock publicClient of
           Inl e \<Rightarrow> (Inl e, [GetBlock])
         | Inr block \<Rightarrow>
             (let blockBaseFee = baseFeePerGas block;
                  baseFee = (case blockBaseFee of None \<Rightarrow> 0 | Some b \<Rightarrow> int b)
              in (Inr
                   (if int (op_maxFeePerGas userOperation)
                         < baseFee + int (op_maxPriorityFeePerGas userOperation)
                    then int (op_maxFeePerGas userOperation)
                    else int (op_maxPriorityFeePerGas userOperation) + baseFee),
                  [GetBlock]))))"

definition calcVerificationGasAndCallGasLimit ::
  "Chains \<Rightarrow> 'c PublicClient \<Rightarrow> UnPackedUserOperation \<Rightarrow> ExecutionResult \<Rightarrow> int
     \<Rightarrow> (int \<times> int) outcome" where
  "calcVerificationGasAndCallGasLimit chainIds publicClient userOperation executionResult chainId =
     (let verificationGasLimit =
            bigint_quot
              ((preOpGas executionResult - int (op_preVerificationGas userOperation)) * 3) 2
      in case effective_gasPrice publicClient userOperation of
           (Inl e, calls) \<Rightarrow> (Inl e, calls)
         | (Inr gasPrice, calls) \<Rightarrow>
             (case bigint_div (paid executionResult) gasPrice of
                Inl e \<Rightarrow> (Inl e, calls)
              | Inr q \<Rightarrow>
                  (let calculatedCallGasLimit =
                         q - preOpGas executionResult + 21000 + 50000;
                       callGasLimit =
                         (if calculatedCallGasLimit > 9000 then calculatedCallGasLimit
                          else 9000);
                       callGasLimit' =
                         (if chainId = baseGoerli chainIds \<or> chainId = baseSepolia chainIds
                             \<or> chainId = base chainIds
                          then bigint_quot (110 * callGasLimit) 100
                          else callGasLimit)
                   in (Inr (verificationGasLimit, callGasLimit'), calls))))"

subsection \<open>The error normalizer\<close>

text \<open>
  The argument is any JavaScript value. What the function looks at is whether the value
  is an error object of one of the eight classes it names, and the value's \<open>cause\<close>.
  The eight classes are unrelated subclasses of the library's base error, so an object
  is an instance of at most one of them; \<open>OtherClass\<close> stands for every other class,
  \<open>NotAnObject\<close> for \<open>undefined\<close> and every other value that is an instance of none.
\<close>

datatype error_class =
    ContractFunctionExecutionError
  | TransactionExecutionError
  | NonceTooLowError
  | FeeCapTooLowError
  | InsufficientFundsError
  | IntrinsicGasTooLowError
  | ContractFunctionRevertedError
  | EstimateGasExecutionError
  | OtherClass

datatype js_value =
    NotAnObject
  | ErrorObject error_class js_value

fun instanceof :: "js_value \<Rightarrow> error_class \<Rightarrow> bool" where
  "instanceof NotAnObject c = False"
| "instanceof (ErrorObject k cause) c = (k = c)"

fun cause_of :: "js_value \<Rightarrow> js_value" where
  "cause_of NotAnObject = NotAnObject"
| "cause_of (ErrorObject k cause) = cause"

text \<open>\<open>None\<close> is the \<open>undefined\<close> the source returns.\<close>

definition parseViemError :: "js_value \<Rightarrow> js_value option" where
  "parseViemError err =
     (if instanceof err ContractFunctionExecutionError
         \<or> instanceof err TransactionExecutionError
      then (let e = cause_of err
            in if instanceof e NonceTooLowError then Some e
               else if instanceof e FeeCapTooLowError then Some e
               else if instanceof e InsufficientFundsError then Some e
               else if instanceof e IntrinsicGasTooLowError then Some e
               else if instanceof e ContractFunctionRevertedError then Some e
               else if instanceof e EstimateGasExecutionError then Some e
               else None)
      else None)"

subsection \<open>The specification's formulas\<close>

text \<open>
  The default model as the specification words it, on the encoding \<open>packUserOp\<close>
  produces: the length in words is the ceiling of the byte length over 32, and the
  calldata cost is the sum of \<open>zeroByte\<close> for each zero byte and \<open>nonZeroByte\<close> for
  each other byte.
\<close>

definition spec_lengthInWords :: "hex \<Rightarrow> int" where
  "spec_lengthInWords packed = \<lceil>(of_nat (length packed) :: rat) / 32\<rceil>"

definition spec_calldataCost :: "GasOverheads \<Rightarrow> hex \<Rightarrow> number" where
  "spec_calldataCost ov packed =
     sum_list (map (\<lambda>x. if x = 0 then zeroByte ov else nonZeroByte ov) packed)"

definition spec_calcDefaultPreVerificationGas ::
  "UnPackedUserOperation \<Rightarrow> PartialGasOverheads option \<Rightarrow> int" where
  "spec_calcDefaultPreVerificationGas userOperation overheads =
     (let ov = merge_overheads overheads;
          uop = userOperation
            \<lparr> op_signature :=
                (if op_signature userOperation = []
                 then replicate (sigSize ov) 1
                 else op_signature userOperation) \<rparr>;
          packed = packUserOp uop
      in math_round
           (spec_calldataCost ov packed + fixed ov / bundleSize ov + perUserOp ov
             + perUserOpWord ov * of_int (spec_lengthInWords packed)))"

text \<open>
  The limits as the specification words them, with floor division. The effective gas
  price: \<open>maxFeePerGas\<close> when the two fee fields are equal, and otherwise the minimum of
  \<open>maxFeePerGas\<close> and \<open>maxPriorityFeePerGas\<close> plus the base fee, an absent base fee
  counting as 0.
\<close>

definition spec_verificationGasLimit :: "ExecutionResult \<Rightarrow> UnPackedUserOperation \<Rightarrow> int" where
  "spec_verificationGasLimit executionResult userOperation =
     ((preOpGas executionResult - int (op_preVerificationGas userOperation)) * 3) div 2"

definition spec_gasPrice :: "UnPackedUserOperation \<Rightarrow> nat option \<Rightarrow> nat" where
  "spec_gasPrice userOperation blockBaseFee =
     (if op_maxPriorityFeePerGas userOperation = op_maxFeePerGas userOperation
      then op_maxFeePerGas userOperation
      else min (op_maxFeePerGas userOperation)
             (op_maxPriorityFeePerGas userOperation
               + (case blockBaseFee of None \<Rightarrow> 0 | Some b \<Rightarrow> b)))"

definition spec_callGasLimit :: "ExecutionResult \<Rightarrow> nat \<Rightarrow> int" where
  "spec_callGasLimit executionResult gasPrice =
     max (paid executionResult div int gasPrice - preOpGas executionResult + 21000 + 50000)
       9000"

subsection \<open>The chain tables\<close>

definition double_cost_chains :: "int set" where
  "double_cost_chains = {59140, 59142}"

definition optimism_stack_chains :: "Chains \<Rightarrow> int set" where
  "optimism_stack_chains chainIds =
     {optimism chainIds, optimismSepolia chainIds, optimismGoerli chainIds, base chainIds,
      baseGoerli chainIds, baseSepolia chainIds, opBNB chainIds, opBNBTestnet chainIds, 957}"

definition base_family_chains :: "Chains \<Rightarrow> int set" where
  "base_family_chains chainIds = {baseGoerli chainIds, baseSepolia chainIds, base chainIds}"

subsection \<open>The taxonomy of the error normalizer\<close>

definition execution_wrappers :: "error_class set" where
  "execution_wrappers = {ContractFunctionExecutionError, TransactionExecutionError}"

definition known_causes :: "error_class set" where
  "known_causes =
     {NonceTooLowError, FeeCapTooLowError, InsufficientFundsError, IntrinsicGasTooLowError,
      ContractFunctionRevertedError, EstimateGasExecutionError}"

subsection \<open>Sample inputs\<close>

definition sample_op :: UnPackedUserOperation where
  "sample_op =
     \<lparr> op_sender = 0, op_nonce = 0, op_initCode = [], op_callData = [],
       op_verificationGasLimit = 0, op_callGasLimit = 0, op_preVerificationGas = 0,
       op_maxFeePerGas = 0, op_maxPriorityFeePerGas = 0, op_paymaster = None,
       op_signature = [] \<rparr>"

definition sample_lib :: Library where
  "sample_lib =
     \<lparr> getFunctionSelector = [0x76, 0x5e, 0x82, 0x7f],
       encodeInputs = (\<lambda>ops entryPoint. concat (map callData ops)),
       serializeTransaction = (\<lambda>tx sg. tx_data tx @ sig_r sg) \<rparr>"

definition sample_client :: "int PublicClient" where
  "sample_client =
     \<lparr> chain = 10,
       getBlock = Inr \<lparr> baseFeePerGas = Some 7 \<rparr>,
       getL1Fee = (\<lambda>data. Inr 1000),
       gasEstimateL1Component = (\<lambda>to contractCreation data. Inr (500, 1, 2)),
       getGasPrice = Inr \<lparr> maxFeePerGas = 30, maxPriorityFeePerGas = 2 \<rparr> \<rparr>"

subsection \<open>Auxiliary notions\<close>

text \<open>The size of the tail of a \<open>bytes\<close> parameter.\<close>

definition tail_size :: "hex \<Rightarrow> nat" where
  "tail_size h = 32 + length (pad_right32 h)"

text \<open>The operation the default model encodes: the signature, or its placeholder.\<close>

definition with_placeholder :: "GasOverheads \<Rightarrow> UnPackedUserOperation \<Rightarrow> UnPackedUserOperation"
  where
  "with_placeholder ov op =
     op\<lparr>op_signature :=
         (if op_signature op = [] then replicate (sigSize ov) 1 else op_signature op)\<rparr>"

text \<open>The number of bytes that are not zero.\<close>

definition nonzero_bytes :: "hex \<Rightarrow> nat" where
  "nonzero_bytes bs = length (filter (\<lambda>x. x \<noteq> 0) bs)"

subsection \<open>Further sample inputs\<close>

definition zero_price_client :: "int PublicClient" where
  "zero_price_client =
     sample_client\<lparr>getGasPrice := Inr \<lparr> maxFeePerGas = 0, maxPriorityFeePerGas = 2 \<rparr>\<rparr>"

definition no_base_fee_client :: "int PublicClient" where
  "no_base_fee_client = sample_client\<lparr>getBlock := Inr \<lparr> baseFeePerGas = None \<rparr>\<rparr>"

definition late_op :: UnPackedUserOperation where
  "late_op =
     sample_op\<lparr>op_preVerificationGas := 1, op_maxFeePerGas := 1, op_maxPriorityFeePerGas := 1\<rparr>"

definition empty_result :: ExecutionResult where
  "empty_result = \<lparr> preOpGas = 0, paid = 0 \<rparr>"

definition spec_example_op :: UnPackedUserOperation where
  "spec_example_op =
     sample_op\<lparr>op_preVerificationGas := 40000, op_maxFeePerGas := 100,
       op_maxPriorityFeePerGas := 100\<rparr>"

definition spec_example_result :: ExecutionResult where
  "spec_example_result = \<lparr> preOpGas = 100000, paid = 10000000 \<rparr>"

section \<open>Properties\<close>

subsection \<open>Lengths of the encoding\<close>

lemma length_be_bytes [simp]: "length (be_bytes k n) = k"
  by (induction k arbitrary: n) auto

lemma length_ff_bytes [simp]: "length (ff_bytes n) = n"
  by (simp add: ff_bytes_def)

lemma round_up_32: "(n::nat) + (32 - n mod 32) mod 32 = 32 * ((n + 31) div 32)"
proof -
  define q r where "q = n div 32" and "r = n mod 32"
  have n: "n = 32 * q + r" and r: "r < 32"
    by (simp_all add: q_def r_def)
  have nr: "n mod 32 = r"
    by (simp add: r_def)
  show ?thesis
  proof (cases "r = 0")
    case True
    have "(32 * q + 31) div 32 = q" by simp
    with True show ?thesis unfolding nr by (simp add: n)
  next
    case False
    with r have e: "(32 - r) mod 32 = 32 - r" by simp
    from False r have "(r + 31) div 32 = 1" by simp
    then have "(32 * q + (r + 31)) div 32 = q + 1"
      by (simp only: div_mult_self4)
    then have "(n + 31) div 32 = q + 1"
      by (simp add: n add.assoc)
    with r show ?thesis unfolding nr e by (simp add: n)
  qed
qed

lemma length_pad_right32:
  "length (pad_right32 h) = length h + (32 - length h mod 32) mod 32"
  by (simp add: pad_right32_def)

lemma dvd_length_pad_right32: "32 dvd length (pad_right32 h)"
  by (simp add: length_pad_right32 round_up_32)

lemma pad_right32_ff32: "pad_right32 (ff_bytes 32) = ff_bytes 32"
  by (simp add: pad_right32_def)

lemma tail_size_eq: "tail_size h = 32 + 32 * ((length h + 31) div 32)"
  by (simp add: tail_size_def length_pad_right32 round_up_32)

lemma tail_size_mono: "length a \<le> length b \<Longrightarrow> tail_size a \<le> tail_size b"
  unfolding tail_size_eq by (simp add: div_le_mono)

lemma dvd_tail_size: "32 dvd tail_size h"
  by (simp add: tail_size_eq)

lemma packUserOp_layout:
  "packUserOp op =
     (let ic = op_initCode op; cd = op_callData op;
          pm = ff_bytes (hex_string_length (paymasterAndData (toPackedUserOperation op)));
          sg = ff_bytes (hex_string_length (op_signature op))
      in be_bytes 32 (unat (op_sender op)) @ be_bytes 32 random_uint
         @ be_bytes 32 288 @ be_bytes 32 (288 + tail_size ic)
         @ ff_bytes 32 @ be_bytes 32 random_uint @ ff_bytes 32
         @ be_bytes 32 (288 + tail_size ic + tail_size cd)
         @ be_bytes 32 (288 + tail_size ic + tail_size cd + tail_size pm)
         @ (be_bytes 32 (length ic) @ pad_right32 ic)
         @ (be_bytes 32 (length cd) @ pad_right32 cd)
         @ (be_bytes 32 (length pm) @ pad_right32 pm)
         @ (be_bytes 32 (length sg) @ pad_right32 sg))"
  by (simp add: packUserOp_def toPackedUserOperation_def
      packedUserOperationToRandomDataUserOp_def encodeAbiParameters_def Let_def
      pad_right32_ff32 tail_size_def)

lemma length_packUserOp:
  "length (packUserOp op) =
     288 + tail_size (op_initCode op) + tail_size (op_callData op)
       + tail_size (ff_bytes (hex_string_length (paymasterAndData (toPackedUserOperation op))))
       + tail_size (ff_bytes (hex_string_length (op_signature op)))"
  by (simp add: packUserOp_layout Let_def tail_size_def)

lemma dvd_length_packUserOp: "32 dvd length (packUserOp op)"
  unfolding length_packUserOp
  by (intro dvd_add dvd_tail_size) simp

subsection \<open>The cost of the bytes\<close>

lemma to_uint8_4: "to_uint8 4 = 4"
  by (simp add: to_uint8_def truncate_number_def)

lemma to_uint8_16: "to_uint8 16 = 16"
  by (simp add: to_uint8_def truncate_number_def)

lemma default_costs_exact:
  "(of_nat (sum_list (byte_costs DefaultGasOverheads packed)) :: rat) =
     spec_calldataCost DefaultGasOverheads packed"
  by (induction packed)
     (simp_all add: byte_costs_def spec_calldataCost_def DefaultGasOverheads_def
       to_uint8_4 to_uint8_16)

lemma floor_int_plus_fraction:
  fixes q :: rat
  assumes "0 \<le> q" "q < 1"
  shows "\<lfloor>of_int z + q\<rfloor> = z"
  using assms by (intro floor_unique) simp_all

lemma default_round_code:
  "math_round (of_nat c + 21000 / 1 + 18300 + 4 * ((of_nat (32 * m) + 31) / 32))
     = int c + 39300 + 4 * int m + 4"
proof -
  have "(of_nat c + 21000 / 1 + 18300 + 4 * ((of_nat (32 * m) + 31) / 32) + 1 / 2 :: rat)
      = of_int (int c + 39300 + 4 * int m + 4) + 3 / 8"
    by (simp add: field_simps)
  then show ?thesis
    unfolding math_round_def by (simp only: floor_int_plus_fraction)
qed

lemma ceiling_words: "\<lceil>(of_nat (32 * m) :: rat) / 32\<rceil> = int m"
  by simp

lemma default_round_spec:
  "math_round (of_nat c + 21000 / 1 + 18300 + 4 * of_int (int m))
     = int c + 39300 + 4 * int m"
proof -
  have "(of_nat c + 21000 / 1 + 18300 + 4 * of_int (int m) + 1 / 2 :: rat)
      = of_int (int c + 39300 + 4 * int m) + 1 / 2"
    by (simp add: field_simps)
  then show ?thesis
    unfolding math_round_def by (simp only: floor_int_plus_fraction)
qed

lemma merge_overheads_None: "merge_overheads None = DefaultGasOverheads"
  by (simp add: merge_overheads_def)

lemma default_costs_count:
  "sum_list (byte_costs DefaultGasOverheads bs) = 4 * length bs + 12 * nonzero_bytes bs"
  by (induction bs)
     (simp_all add: byte_costs_def DefaultGasOverheads_def to_uint8_4 to_uint8_16
       nonzero_bytes_def)

lemma calcDefaultPreVerificationGas_default:
  assumes "length (packUserOp (with_placeholder DefaultGasOverheads op)) = 32 * m"
  shows "calcDefaultPreVerificationGas op None =
     Inr (int (sum_list (byte_costs DefaultGasOverheads
            (packUserOp (with_placeholder DefaultGasOverheads op))))
          + 39300 + 4 * int m + 4)"
  unfolding calcDefaultPreVerificationGas_def merge_overheads_None Let_def
    with_placeholder_def [symmetric] assms
  by (simp add: DefaultGasOverheads_def default_round_code [simplified])

lemma spec_calcDefaultPreVerificationGas_default:
  assumes "length (packUserOp (with_placeholder DefaultGasOverheads op)) = 32 * m"
  shows "spec_calcDefaultPreVerificationGas op None =
     int (sum_list (byte_costs DefaultGasOverheads
            (packUserOp (with_placeholder DefaultGasOverheads op))))
          + 39300 + 4 * int m"
  unfolding spec_calcDefaultPreVerificationGas_def merge_overheads_None Let_def
    with_placeholder_def [symmetric] default_costs_exact [symmetric]
    spec_lengthInWords_def assms ceiling_words
  by (simp add: DefaultGasOverheads_def default_round_spec [simplified])

text \<open>
  C1. The claim: for every user operation and every override of the overheads,
  \<open>calcDefaultPreVerificationGas\<close> returns the rounded sum of the calldata cost,
  \<open>fixed / bundleSize\<close>, \<open>perUserOp\<close> and \<open>perUserOpWord\<close> times the length in
  words, the length in words being the ceiling of the byte length over 32.

  The source computes \<open>(packed.length + 31) / 32\<close> on JavaScript numbers, a quotient
  that is not rounded. The encoding is a whole number of words, so the quotient exceeds
  the ceiling by \<open>31 / 32\<close>: with the default overheads the result is, for every
  operation, 4 above the value of the claim's formula.
\<close>

theorem calcDefaultPreVerificationGas_not_ceiling:
  "calcDefaultPreVerificationGas op None =
     Inr (spec_calcDefaultPreVerificationGas op None + 4)"
proof -
  obtain m where m: "length (packUserOp (with_placeholder DefaultGasOverheads op)) = 32 * m"
    using dvd_length_packUserOp [of "with_placeholder DefaultGasOverheads op"]
    by (auto simp: dvd_def)
  show ?thesis
    unfolding calcDefaultPreVerificationGas_default [OF m]
      spec_calcDefaultPreVerificationGas_default [OF m]
    by simp
qed

lemma be_bytes_numeral:
  "be_bytes (numeral k) n = be_bytes (pred_numeral k) (n div 256) @ [of_nat (n mod 256)]"
  using be_bytes.simps(2) [of "pred_numeral k" n] by (simp only: numeral_eq_Suc [symmetric])

lemma replicate_numeral:
  "replicate (numeral k) x = x # replicate (pred_numeral k) x"
  using replicate_Suc [of "pred_numeral k" x] by (simp only: numeral_eq_Suc [symmetric])

lemma nonzero_bytes_Nil [simp]: "nonzero_bytes [] = 0"
  by (simp add: nonzero_bytes_def)

lemma nonzero_bytes_Cons [simp]:
  "nonzero_bytes (x # xs) = (if x = 0 then 0 else 1) + nonzero_bytes xs"
  by (simp add: nonzero_bytes_def)

lemma nonzero_bytes_append [simp]:
  "nonzero_bytes (xs @ ys) = nonzero_bytes xs + nonzero_bytes ys"
  by (simp add: nonzero_bytes_def)

lemma nonzero_bytes_zeros [simp]: "nonzero_bytes (replicate n 0) = 0"
  by (simp add: nonzero_bytes_def)

lemma nonzero_bytes_ff [simp]: "nonzero_bytes (ff_bytes n) = n"
  by (simp add: nonzero_bytes_def ff_bytes_def)

lemma nonzero_bytes_pad [simp]: "nonzero_bytes (pad_right32 h) = nonzero_bytes h"
  by (simp add: pad_right32_def)

lemma nonzero_bytes_be_zero [simp]: "nonzero_bytes (be_bytes k 0) = 0"
  by (induction k) simp_all

lemma nonzero_bytes_random: "nonzero_bytes (be_bytes 32 random_uint) = 31"
  by (simp add: random_uint_def be_bytes_numeral)

lemma sample_length:
  "length (packUserOp (with_placeholder DefaultGasOverheads sample_op)) = 32 * 19"
  by (simp add: length_packUserOp tail_size_eq hex_string_length_def with_placeholder_def
      sample_op_def toPackedUserOperation_def DefaultGasOverheads_def)

lemma nonzero_bytes_be_numeral:
  "nonzero_bytes (be_bytes (numeral k) (numeral n)) =
     nonzero_bytes (be_bytes (pred_numeral k) (numeral n div 256))
       + (if (of_nat (numeral n mod 256) :: byte) = 0 then 0 else 1)"
  by (simp add: be_bytes_numeral)

lemma nonzero_bytes_be_one: "nonzero_bytes (be_bytes (numeral k) (Suc 0)) = 1"
  by (simp add: be_bytes_numeral)

lemma nonzero_bytes_packUserOp:
  "nonzero_bytes (packUserOp op) =
     (let ic = op_initCode op; cd = op_callData op;
          pm = hex_string_length (paymasterAndData (toPackedUserOperation op));
          sg = hex_string_length (op_signature op)
      in nonzero_bytes (be_bytes 32 (unat (op_sender op))) + 62 + 64
         + nonzero_bytes (be_bytes 32 288)
         + nonzero_bytes (be_bytes 32 (288 + tail_size ic))
         + nonzero_bytes (be_bytes 32 (288 + tail_size ic + tail_size cd))
         + nonzero_bytes
             (be_bytes 32 (288 + tail_size ic + tail_size cd + tail_size (ff_bytes pm)))
         + (nonzero_bytes (be_bytes 32 (length ic)) + nonzero_bytes ic)
         + (nonzero_bytes (be_bytes 32 (length cd)) + nonzero_bytes cd)
         + (nonzero_bytes (be_bytes 32 pm) + pm)
         + (nonzero_bytes (be_bytes 32 sg) + sg))"
  by (simp add: packUserOp_layout Let_def nonzero_bytes_random)

lemma sample_nonzero:
  "nonzero_bytes (packUserOp (with_placeholder DefaultGasOverheads sample_op)) = 270"
  by (simp add: nonzero_bytes_packUserOp Let_def tail_size_eq hex_string_length_def
      with_placeholder_def sample_op_def toPackedUserOperation_def DefaultGasOverheads_def
      nonzero_bytes_be_numeral nonzero_bytes_be_one)

lemma calcDefaultPreVerificationGas_sample:
  "calcDefaultPreVerificationGas sample_op None = Inr 45052"
  unfolding calcDefaultPreVerificationGas_default [OF sample_length] default_costs_count
    sample_nonzero sample_length
  by simp

lemma spec_calcDefaultPreVerificationGas_sample:
  "spec_calcDefaultPreVerificationGas sample_op None = 45048"
  unfolding spec_calcDefaultPreVerificationGas_default [OF sample_length] default_costs_count
    sample_nonzero sample_length
  by simp

text \<open>
  The costs pass through a \<open>Uint8Array\<close>: an override of 300 for a byte counts as 44.
\<close>

lemma byte_costs_modulo_256:
  "byte_costs (DefaultGasOverheads\<lparr>nonZeroByte := 300\<rparr>) [1] = [44]"
  by (simp add: byte_costs_def to_uint8_def truncate_number_def)

lemma calcDefaultPreVerificationGas_default_count:
  assumes "length (packUserOp (with_placeholder DefaultGasOverheads op)) = 32 * m"
    and "nonzero_bytes (packUserOp (with_placeholder DefaultGasOverheads op)) = z"
  shows "calcDefaultPreVerificationGas op None = Inr (int (132 * m + 12 * z) + 39304)"
  unfolding calcDefaultPreVerificationGas_default [OF assms(1)] default_costs_count assms
  by simp

lemma nonzero_bytes_be_two: "nonzero_bytes (be_bytes (numeral k) (Suc (Suc 0))) = 1"
  by (simp add: be_bytes_numeral)

lemma one_byte_length:
  "length (packUserOp (with_placeholder DefaultGasOverheads (sample_op\<lparr>op_callData := [255]\<rparr>)))
     = 32 * 20"
  by (simp add: length_packUserOp tail_size_eq hex_string_length_def with_placeholder_def
      sample_op_def toPackedUserOperation_def DefaultGasOverheads_def)

lemma one_byte_nonzero:
  "nonzero_bytes
     (packUserOp (with_placeholder DefaultGasOverheads (sample_op\<lparr>op_callData := [255]\<rparr>)))
     = 272"
  by (simp add: nonzero_bytes_packUserOp Let_def tail_size_eq hex_string_length_def
      with_placeholder_def sample_op_def toPackedUserOperation_def DefaultGasOverheads_def
      nonzero_bytes_be_numeral nonzero_bytes_be_one)

lemma two_bytes_length:
  "length (packUserOp (with_placeholder DefaultGasOverheads (sample_op\<lparr>op_callData := [0, 0]\<rparr>)))
     = 32 * 20"
  by (simp add: length_packUserOp tail_size_eq hex_string_length_def with_placeholder_def
      sample_op_def toPackedUserOperation_def DefaultGasOverheads_def)

lemma two_bytes_nonzero:
  "nonzero_bytes
     (packUserOp (with_placeholder DefaultGasOverheads (sample_op\<lparr>op_callData := [0, 0]\<rparr>)))
     = 271"
  by (simp add: nonzero_bytes_packUserOp Let_def tail_size_eq hex_string_length_def
      with_placeholder_def sample_op_def toPackedUserOperation_def DefaultGasOverheads_def
      nonzero_bytes_be_numeral nonzero_bytes_be_one nonzero_bytes_be_two)

text \<open>
  The default model at the sample operation with a call data of the one byte \<open>0xFF\<close>,
  and with a call data of two zero bytes: the longer call data gives the lower result.
\<close>

theorem longer_callData_lower_result:
  "calcDefaultPreVerificationGas (sample_op\<lparr>op_callData := [255]\<rparr>) None = Inr 45208
   \<and> calcDefaultPreVerificationGas (sample_op\<lparr>op_callData := [0, 0]\<rparr>) None = Inr 45196"
  unfolding calcDefaultPreVerificationGas_default_count [OF one_byte_length one_byte_nonzero]
    calcDefaultPreVerificationGas_default_count [OF two_bytes_length two_bytes_nonzero]
  by simp

subsection \<open>Monotonicity\<close>

lemma with_placeholder_update:
  "with_placeholder ov (op\<lparr>op_callData := cd, op_initCode := ic\<rparr>) =
     (with_placeholder ov op)\<lparr>op_callData := cd, op_initCode := ic\<rparr>"
  by (simp add: with_placeholder_def)

lemma length_packUserOp_mono:
  assumes "length (op_callData op) \<le> length cd" and "length (op_initCode op) \<le> length ic"
  shows "length (packUserOp op) \<le> length (packUserOp (op\<lparr>op_callData := cd, op_initCode := ic\<rparr>))"
  using tail_size_mono [OF assms(1)] tail_size_mono [OF assms(2)]
  by (simp add: length_packUserOp toPackedUserOperation_def)

lemma one_byte_op:
  "sample_op\<lparr>op_callData := [255], op_initCode := []\<rparr> = sample_op\<lparr>op_callData := [255]\<rparr>"
  by (simp add: sample_op_def)

text \<open>
  C7. The claim: under the default overheads, a change to \<open>callData\<close> or \<open>initCode\<close>
  that increases its byte length never decreases the result of
  \<open>calcDefaultPreVerificationGas\<close>. It fails (\<open>longer_callData_lower_result\<close>): the
  calldata cost depends on the values of the bytes, a zero byte costing 4 and any other
  byte 16.

  What holds, when \<open>callData\<close> and \<open>initCode\<close> are replaced by values that are not
  shorter: the encoding does not get shorter; and under the default overheads both
  calls return and the result does not decrease, provided the encoding of the changed
  operation has no fewer non-zero bytes.
\<close>

theorem calcDefaultPreVerificationGas_monotone:
  assumes "length (op_callData op) \<le> length cd" and "length (op_initCode op) \<le> length ic"
  shows "length (packUserOp op)
           \<le> length (packUserOp (op\<lparr>op_callData := cd, op_initCode := ic\<rparr>))
     \<and> (nonzero_bytes (packUserOp (with_placeholder DefaultGasOverheads op))
           \<le> nonzero_bytes (packUserOp (with_placeholder DefaultGasOverheads
                 (op\<lparr>op_callData := cd, op_initCode := ic\<rparr>))) \<longrightarrow>
         (\<exists>r r'. calcDefaultPreVerificationGas op None = Inr r
           \<and> calcDefaultPreVerificationGas (op\<lparr>op_callData := cd, op_initCode := ic\<rparr>) None
               = Inr r'
           \<and> r \<le> r'))"
proof (intro conjI impI)
  show "length (packUserOp op)
      \<le> length (packUserOp (op\<lparr>op_callData := cd, op_initCode := ic\<rparr>))"
    by (rule length_packUserOp_mono [OF assms])
next
  let ?d = DefaultGasOverheads
  let ?op' = "op\<lparr>op_callData := cd, op_initCode := ic\<rparr>"
  assume nz: "nonzero_bytes (packUserOp (with_placeholder ?d op))
      \<le> nonzero_bytes (packUserOp (with_placeholder ?d ?op'))"
  obtain m where m: "length (packUserOp (with_placeholder ?d op)) = 32 * m"
    using dvd_length_packUserOp [of "with_placeholder ?d op"] by (auto simp: dvd_def)
  obtain m' where m': "length (packUserOp (with_placeholder ?d ?op')) = 32 * m'"
    using dvd_length_packUserOp [of "with_placeholder ?d ?op'"] by (auto simp: dvd_def)
  have le: "length (op_callData (with_placeholder ?d op)) \<le> length cd"
    "length (op_initCode (with_placeholder ?d op)) \<le> length ic"
    using assms by (simp_all add: with_placeholder_def)
  have "length (packUserOp (with_placeholder ?d op))
      \<le> length (packUserOp (with_placeholder ?d ?op'))"
    unfolding with_placeholder_update by (rule length_packUserOp_mono [OF le])
  then have "m \<le> m'"
    unfolding m m' by simp
  with nz show "\<exists>r r'. calcDefaultPreVerificationGas op None = Inr r
      \<and> calcDefaultPreVerificationGas ?op' None = Inr r' \<and> r \<le> r'"
    unfolding calcDefaultPreVerificationGas_default_count [OF m refl]
      calcDefaultPreVerificationGas_default_count [OF m' refl]
    by simp
qed

theorem calcDefaultPreVerificationGas_monotone_witness:
  "length (packUserOp sample_op) \<le> length (packUserOp (sample_op\<lparr>op_callData := [255]\<rparr>))
   \<and> (\<exists>r r'. calcDefaultPreVerificationGas sample_op None = Inr r
         \<and> calcDefaultPreVerificationGas (sample_op\<lparr>op_callData := [255]\<rparr>) None = Inr r'
         \<and> r \<le> r')"
proof -
  have len: "length (op_callData sample_op) \<le> length [255 :: byte]"
    "length (op_initCode sample_op) \<le> length ([] :: hex)"
    by (simp_all add: sample_op_def)
  from calcDefaultPreVerificationGas_monotone [OF len]
  show ?thesis
    unfolding one_byte_op sample_nonzero one_byte_nonzero by simp
qed

subsection \<open>BigInt division\<close>

lemma bigint_quot_nonneg: "0 \<le> a \<Longrightarrow> 0 < b \<Longrightarrow> bigint_quot a b = a div b"
  by (cases "a = 0") (simp_all add: bigint_quot_def)

lemma bigint_div_nat:
  "bigint_div (int a) (int b) =
     (if b = 0 then Inl (RangeError ''Division by zero'') else Inr (int (a div b)))"
  by (simp add: bigint_div_def bigint_quot_nonneg zdiv_int)

subsection \<open>The canonicalizer\<close>

lemma be_bytes_random_uint: "be_bytes 32 random_uint = 0 # replicate 31 255"
  by (simp add: random_uint_def be_bytes_numeral replicate_numeral)

lemma canonicalizer_untouched:
  "sender (packedUserOperationToRandomDataUserOp p) = sender p
   \<and> initCode (packedUserOperationToRandomDataUserOp p) = initCode p
   \<and> callData (packedUserOperationToRandomDataUserOp p) = callData p
   \<and> accountGasLimits (packedUserOperationToRandomDataUserOp p) = replicate 32 255
   \<and> gasFees (packedUserOperationToRandomDataUserOp p) = replicate 32 255
   \<and> paymasterAndData (packedUserOperationToRandomDataUserOp p)
       = replicate (2 + 2 * length (paymasterAndData p)) 255
   \<and> signature (packedUserOperationToRandomDataUserOp p)
       = replicate (2 + 2 * length (signature p)) 255"
  by (simp add: packedUserOperationToRandomDataUserOp_def ff_bytes_def hex_string_length_def)

text \<open>
  C2. The claim: the canonicalizer overwrites nonce, both gas-limit words,
  \<open>preVerificationGas\<close>, paymaster data and signature with bytes \<open>0xFF\<close> of the same
  length as the real field (256 bits for nonce and \<open>preVerificationGas\<close>, the original
  byte length for \<open>paymasterAndData\<close> and \<open>signature\<close>), and leaves sender, init code
  and call data unchanged.

  The source sizes the two byte arrays by the \<open>.length\<close> of a hex string, so a field of
  \<open>n\<close> bytes is overwritten by \<open>2 * n + 2\<close> bytes; and its literal for nonce and
  \<open>preVerificationGas\<close> has 62 hexadecimal digits, so the 32-byte word of either starts
  with a zero byte, followed by 31 bytes \<open>0xFF\<close>. The other parts of the claim hold
  (\<open>canonicalizer_untouched\<close>).
\<close>

theorem canonicalizer_lengths:
  "length (signature (packedUserOperationToRandomDataUserOp p)) = 2 * length (signature p) + 2
   \<and> length (paymasterAndData (packedUserOperationToRandomDataUserOp p))
       = 2 * length (paymasterAndData p) + 2
   \<and> encode_static (AbiUint256 (nonce (packedUserOperationToRandomDataUserOp p)))
       = 0 # replicate 31 255
   \<and> encode_static (AbiUint256 (preVerificationGas (packedUserOperationToRandomDataUserOp p)))
       = 0 # replicate 31 255"
  by (simp add: packedUserOperationToRandomDataUserOp_def ff_bytes_def hex_string_length_def
      be_bytes_random_uint)

subsection \<open>The Optimism calculator\<close>

lemma calcOptimismPreVerificationGas_priced:
  assumes "getBlock c = Inr blk" and "baseFeePerGas blk = Some B"
    and "getL1Fee c (opGasPriceOracle_serializedTx lib c op ep) = Inr F"
    and "getGasPrice c = Inr gp"
  shows "calcOptimismPreVerificationGas lib c op ep staticFee =
     (if min (maxFeePerGas gp) (B + maxPriorityFeePerGas gp) = 0
      then Inl (RangeError ''Division by zero'')
      else Inr (staticFee + int (F div min (maxFeePerGas gp) (B + maxPriorityFeePerGas gp))),
      [GetBlock, SimulateGetL1Fee (opGasPriceOracle_serializedTx lib c op ep), GetGasPrice])"
  using assms
  by (simp add: calcOptimismPreVerificationGas_def Let_def bigint_div_nat min_def)

text \<open>
  C4. The claim: for every static fee and every response with \<open>l1Fee = F\<close>,
  \<open>maxFeePerGas = A\<close>, base fee \<open>B\<close> and \<open>maxPriorityFeePerGas = C\<close>, the Optimism
  calculator returns \<open>staticFee + F div min A (B + C)\<close>. It fails where
  \<open>min A (B + C) = 0\<close>: the BigInt division raises (\<open>zero_price_faults\<close>).

  What holds: for every static fee and every such response with \<open>min A (B + C) \<noteq> 0\<close>,
  the calculator returns \<open>staticFee + F div min A (B + C)\<close>, which is
  \<open>staticFee + F div (B + C)\<close> when \<open>B + C \<le> A\<close> and \<open>staticFee + F div A\<close> when
  \<open>A < B + C\<close>.
\<close>

theorem calcOptimismPreVerificationGas_result:
  assumes "getBlock c = Inr blk" and "baseFeePerGas blk = Some B"
    and "getL1Fee c (opGasPriceOracle_serializedTx lib c op ep) = Inr F"
    and "getGasPrice c = Inr gp"
    and "maxFeePerGas gp = A" and "maxPriorityFeePerGas gp = C"
    and "min A (B + C) \<noteq> 0"
  shows "fst (calcOptimismPreVerificationGas lib c op ep staticFee)
           = Inr (staticFee + int (F div min A (B + C)))
     \<and> (B + C \<le> A \<longrightarrow>
          fst (calcOptimismPreVerificationGas lib c op ep staticFee)
            = Inr (staticFee + int (F div (B + C))))
     \<and> (A < B + C \<longrightarrow>
          fst (calcOptimismPreVerificationGas lib c op ep staticFee)
            = Inr (staticFee + int (F div A)))"
proof -
  have "fst (calcOptimismPreVerificationGas lib c op ep staticFee)
      = Inr (staticFee + int (F div min A (B + C)))"
    using assms(7)
    unfolding calcOptimismPreVerificationGas_priced [OF assms(1-4)] assms(5) assms(6)
    by simp
  then show ?thesis
    by (auto simp: min_absorb1 min_absorb2)
qed

theorem calcOptimismPreVerificationGas_result_witness:
  "fst (calcOptimismPreVerificationGas sample_lib sample_client sample_op 0 45052) = Inr 45163"
  using calcOptimismPreVerificationGas_result
    [of sample_client "\<lparr> baseFeePerGas = Some 7 \<rparr>" 7 sample_lib sample_op 0 1000
      "\<lparr> maxFeePerGas = 30, maxPriorityFeePerGas = 2 \<rparr>" 30 2 45052]
  by (simp add: sample_client_def)

text \<open>
  A gas price sample with \<open>maxFeePerGas = 0\<close>: the calculator raises the
  \<open>RangeError\<close> of the division.
\<close>

theorem zero_price_faults:
  "fst (calcOptimismPreVerificationGas sample_lib zero_price_client sample_op 0 45052)
     = Inl (RangeError ''Division by zero'')"
  by (simp add: calcOptimismPreVerificationGas_def Let_def zero_price_client_def
      sample_client_def bigint_div_def)

text \<open>
  C9. On the Optimism path, when the latest block has no \<open>baseFeePerGas\<close>, the
  calculator raises the \<open>RpcError\<close> with the message
  \<open>block does not have baseFeePerGas\<close>, which is no failure of the client, and the
  only call it has made is the read of the block: no oracle call, no gas price call.
\<close>

theorem missing_base_fee_unsupported:
  assumes "getBlock c = Inr blk" and "baseFeePerGas blk = None"
  shows "calcOptimismPreVerificationGas lib c op ep staticFee
           = (Inl (RpcError ''block does not have baseFeePerGas''), [GetBlock])
     \<and> (\<forall>m. fst (calcOptimismPreVerificationGas lib c op ep staticFee) \<noteq> Inl (ClientError m))"
  using assms by (simp add: calcOptimismPreVerificationGas_def)

theorem missing_base_fee_unsupported_witness:
  "calcOptimismPreVerificationGas sample_lib no_base_fee_client sample_op 0 45052
     = (Inl (RpcError ''block does not have baseFeePerGas''), [GetBlock])"
  using missing_base_fee_unsupported
    [of no_base_fee_client "\<lparr> baseFeePerGas = None \<rparr>" sample_lib sample_op 0 45052]
  by (simp add: no_base_fee_client_def)

subsection \<open>The Arbitrum calculator\<close>

text \<open>
  C5. For every static fee and every response \<open>(X, baseFee, l1BaseFeeEstimate)\<close> of the
  precompile, the Arbitrum calculator returns \<open>staticFee + X\<close>, whatever the second
  and the third component are.
\<close>

theorem calcArbitrumPreVerificationGas_result:
  assumes "gasEstimateL1Component c ep False (arbGasPriceOracle_serializedTx lib c op ep)
             = Inr (X, baseFee, l1BaseFeeEstimate)"
  shows "fst (calcArbitrumPreVerificationGas lib c op ep staticFee) = Inr (staticFee + int X)"
  using assms by (simp add: calcArbitrumPreVerificationGas_def Let_def)

theorem calcArbitrumPreVerificationGas_result_witness:
  "fst (calcArbitrumPreVerificationGas sample_lib (with_optional_chain sample_client)
          sample_op 0 45052) = Inr 45552"
  using calcArbitrumPreVerificationGas_result
    [of "with_optional_chain sample_client" 0 sample_lib sample_op 500 1 2 45052]
  by (simp add: with_optional_chain_def sample_client_def)

subsection \<open>The dispatcher\<close>

lemma viem_chains_disjoint:
  "double_cost_chains \<inter> optimism_stack_chains viem_chains = {}"
  "arbitrum viem_chains \<notin> double_cost_chains \<union> optimism_stack_chains viem_chains"
  by (simp_all add: double_cost_chains_def optimism_stack_chains_def viem_chains_def)

lemma sample_baseline:
  "calcDefaultPreVerificationGas sample_op (map_option as_partial None) = Inr 45052"
  by (simp add: calcDefaultPreVerificationGas_sample)

text \<open>
  C3. The dispatcher routes every chain identifier to one branch. When the default
  model raises, so does the dispatcher, with no network call. When it returns the
  baseline: for a chain of the double-cost set the dispatcher returns twice the
  baseline and makes no network call; for a chain of the Optimism-stack set it returns
  what the Optimism calculator returns for the baseline as static fee; for the
  Arbitrum chain, what the Arbitrum calculator returns for it; for every other chain, the
  baseline unchanged, with no network call. The three tables are disjoint, as they are
  for the identifiers of the library (\<open>viem_chains_disjoint\<close>).
\<close>

theorem calcPreVerificationGas_dispatch:
  assumes "double_cost_chains \<inter> optimism_stack_chains cs = {}"
    and "arbitrum cs \<notin> double_cost_chains \<union> optimism_stack_chains cs"
  shows "(\<forall>e. calcDefaultPreVerificationGas op (map_option as_partial ov) = Inl e \<longrightarrow>
            calcPreVerificationGas cs lib c op ep chainId ov = (Inl e, []))
     \<and> (\<forall>baseline. calcDefaultPreVerificationGas op (map_option as_partial ov) = Inr baseline \<longrightarrow>
          (chainId \<in> double_cost_chains \<longrightarrow>
             calcPreVerificationGas cs lib c op ep chainId ov = (Inr (2 * baseline), []))
        \<and> (chainId \<in> optimism_stack_chains cs \<longrightarrow>
             calcPreVerificationGas cs lib c op ep chainId ov
               = calcOptimismPreVerificationGas lib c op ep baseline)
        \<and> (chainId = arbitrum cs \<longrightarrow>
             calcPreVerificationGas cs lib c op ep chainId ov
               = calcArbitrumPreVerificationGas lib (with_optional_chain c) op ep baseline)
        \<and> (chainId \<notin> double_cost_chains \<union> optimism_stack_chains cs \<union> {arbitrum cs} \<longrightarrow>
             calcPreVerificationGas cs lib c op ep chainId ov = (Inr baseline, [])))"
proof (intro conjI allI impI)
  fix e
  assume "calcDefaultPreVerificationGas op (map_option as_partial ov) = Inl e"
  then show "calcPreVerificationGas cs lib c op ep chainId ov = (Inl e, [])"
    by (simp add: calcPreVerificationGas_def)
next
  fix baseline
  assume b: "calcDefaultPreVerificationGas op (map_option as_partial ov) = Inr baseline"
    and "chainId \<in> double_cost_chains"
  then show "calcPreVerificationGas cs lib c op ep chainId ov = (Inr (2 * baseline), [])"
    by (auto simp: calcPreVerificationGas_def double_cost_chains_def)
next
  fix baseline
  assume b: "calcDefaultPreVerificationGas op (map_option as_partial ov) = Inr baseline"
    and a: "chainId \<in> optimism_stack_chains cs"
  with assms(1) have "chainId \<notin> double_cost_chains" by blast
  then have "chainId \<noteq> 59140" "chainId \<noteq> 59142"
    by (simp_all add: double_cost_chains_def)
  with a show "calcPreVerificationGas cs lib c op ep chainId ov
      = calcOptimismPreVerificationGas lib c op ep baseline"
    unfolding calcPreVerificationGas_def b optimism_stack_chains_def by auto
next
  fix baseline
  assume b: "calcDefaultPreVerificationGas op (map_option as_partial ov) = Inr baseline"
    and a: "chainId = arbitrum cs"
  with assms(2) have "chainId \<notin> double_cost_chains" "chainId \<notin> optimism_stack_chains cs"
    by simp_all
  then have "chainId \<noteq> 59140" "chainId \<noteq> 59142"
    "\<not> (chainId = optimism cs \<or> chainId = optimismSepolia cs
        \<or> chainId = optimismGoerli cs \<or> chainId = base cs
        \<or> chainId = baseGoerli cs \<or> chainId = baseSepolia cs
        \<or> chainId = opBNB cs \<or> chainId = opBNBTestnet cs \<or> chainId = 957)"
    by (simp_all add: double_cost_chains_def optimism_stack_chains_def)
  with a show "calcPreVerificationGas cs lib c op ep chainId ov
      = calcArbitrumPreVerificationGas lib (with_optional_chain c) op ep baseline"
    unfolding calcPreVerificationGas_def b by simp
next
  fix baseline
  assume b: "calcDefaultPreVerificationGas op (map_option as_partial ov) = Inr baseline"
    and "chainId \<notin> double_cost_chains \<union> optimism_stack_chains cs \<union> {arbitrum cs}"
  then have "chainId \<noteq> 59140" "chainId \<noteq> 59142"
    "\<not> (chainId = optimism cs \<or> chainId = optimismSepolia cs
        \<or> chainId = optimismGoerli cs \<or> chainId = base cs
        \<or> chainId = baseGoerli cs \<or> chainId = baseSepolia cs
        \<or> chainId = opBNB cs \<or> chainId = opBNBTestnet cs \<or> chainId = 957)"
    "chainId \<noteq> arbitrum cs"
    by (simp_all add: double_cost_chains_def optimism_stack_chains_def)
  then show "calcPreVerificationGas cs lib c op ep chainId ov = (Inr baseline, [])"
    unfolding calcPreVerificationGas_def b by simp
qed

theorem calcPreVerificationGas_dispatch_witness:
  "calcPreVerificationGas viem_chains sample_lib sample_client sample_op 0 59140 None
     = (Inr 90104, [])
   \<and> calcPreVerificationGas viem_chains sample_lib sample_client sample_op 0 8453 None
     = calcOptimismPreVerificationGas sample_lib sample_client sample_op 0 45052
   \<and> calcPreVerificationGas viem_chains sample_lib sample_client sample_op 0 42161 None
     = calcArbitrumPreVerificationGas sample_lib (with_optional_chain sample_client)
         sample_op 0 45052
   \<and> calcPreVerificationGas viem_chains sample_lib sample_client sample_op 0 1 None
     = (Inr 45052, [])
   \<and> calcPreVerificationGas viem_chains sample_lib sample_client sample_op 0 1
         (Some (DefaultGasOverheads\<lparr>bundleSize := 0\<rparr>))
     = (Inl (not_an_integer ''Infinity''), [])"
proof -
  have z: "calcDefaultPreVerificationGas sample_op
      (map_option as_partial (Some (DefaultGasOverheads\<lparr>bundleSize := 0\<rparr>)))
      = Inl (not_an_integer ''Infinity'')"
    by (simp add: calcDefaultPreVerificationGas_def Let_def merge_overheads_def as_partial_def
        or_default_def DefaultGasOverheads_def)
  from
    calcPreVerificationGas_dispatch [OF viem_chains_disjoint,
      where chainId = 59140 and lib = sample_lib and c = sample_client and ep = 0
        and op = sample_op and ov = None]
    calcPreVerificationGas_dispatch [OF viem_chains_disjoint,
      where chainId = 8453 and lib = sample_lib and c = sample_client and ep = 0
        and op = sample_op and ov = None]
    calcPreVerificationGas_dispatch [OF viem_chains_disjoint,
      where chainId = 42161 and lib = sample_lib and c = sample_client and ep = 0
        and op = sample_op and ov = None]
    calcPreVerificationGas_dispatch [OF viem_chains_disjoint,
      where chainId = 1 and lib = sample_lib and c = sample_client and ep = 0
        and op = sample_op and ov = None]
    calcPreVerificationGas_dispatch [OF viem_chains_disjoint,
      where chainId = 1 and lib = sample_lib and c = sample_client and ep = 0
        and op = sample_op and ov = "Some (DefaultGasOverheads\<lparr>bundleSize := 0\<rparr>)"]
  show ?thesis
    unfolding sample_baseline z
    by (simp add: double_cost_chains_def optimism_stack_chains_def viem_chains_def)
qed

subsection \<open>The error normalizer\<close>

text \<open>
  C8. The error normalizer is a total function of its argument. It returns a
  classification exactly when the argument is a contract-call-execution or
  transaction-execution failure whose direct cause is of one of the six known kinds,
  and what it returns is that cause; in every other case it returns nothing. A cause
  \<open>NonceTooLowError\<close> under either wrapper is returned as such.
\<close>

theorem parseViemError_classifies:
  "(parseViemError err = Some e) =
     (\<exists>c k x. err = ErrorObject c e \<and> e = ErrorObject k x
        \<and> c \<in> execution_wrappers \<and> k \<in> known_causes)
   \<and> parseViemError (ErrorObject ContractFunctionExecutionError
         (ErrorObject NonceTooLowError x)) = Some (ErrorObject NonceTooLowError x)
   \<and> parseViemError (ErrorObject TransactionExecutionError
         (ErrorObject NonceTooLowError x)) = Some (ErrorObject NonceTooLowError x)"
proof -
  have "(parseViemError err = Some e) =
     (\<exists>c k x. err = ErrorObject c e \<and> e = ErrorObject k x
        \<and> c \<in> execution_wrappers \<and> k \<in> known_causes)"
  proof (cases err)
    case NotAnObject
    then show ?thesis by (simp add: parseViemError_def)
  next
    case (ErrorObject c cause)
    show ?thesis
    proof (cases cause)
      case NotAnObject
      with ErrorObject show ?thesis
        by (auto simp: parseViemError_def Let_def)
    next
      case inner: (ErrorObject k y)
      with ErrorObject show ?thesis
        by (auto simp: parseViemError_def Let_def execution_wrappers_def known_causes_def
            split: if_splits)
    qed
  qed
  then show ?thesis
    by (simp add: parseViemError_def Let_def)
qed

subsection \<open>The limit deriver\<close>

lemma effective_gasPrice_eq:
  assumes "op_maxPriorityFeePerGas op \<noteq> op_maxFeePerGas op \<longrightarrow> getBlock c = Inr blk"
  shows "effective_gasPrice c op =
     (Inr (int (spec_gasPrice op (baseFeePerGas blk))),
      if op_maxPriorityFeePerGas op = op_maxFeePerGas op then [] else [GetBlock])"
proof (cases "op_maxPriorityFeePerGas op = op_maxFeePerGas op")
  case True
  then show ?thesis
    by (simp add: effective_gasPrice_def spec_gasPrice_def)
next
  case False
  with assms have "getBlock c = Inr blk" by simp
  with False show ?thesis
    by (cases "baseFeePerGas blk")
       (auto simp: effective_gasPrice_def spec_gasPrice_def Let_def min_def)
qed

lemma at_least_9000: "(if x > 9000 then x else 9000) = max x (9000::int)"
  by (simp add: max_def)

lemma base_family_iff:
  "(chainId = baseGoerli cs \<or> chainId = baseSepolia cs \<or> chainId = base cs)
     = (chainId \<in> base_family_chains cs)"
  by (auto simp: base_family_chains_def)

lemma calcVerificationGasAndCallGasLimit_priced:
  assumes "op_maxPriorityFeePerGas op \<noteq> op_maxFeePerGas op \<longrightarrow> getBlock c = Inr blk"
  shows "calcVerificationGasAndCallGasLimit cs c op er chainId =
     (if spec_gasPrice op (baseFeePerGas blk) = 0
      then Inl (RangeError ''Division by zero'')
      else Inr (bigint_quot ((preOpGas er - int (op_preVerificationGas op)) * 3) 2,
             (let cgl = max (bigint_quot (paid er) (int (spec_gasPrice op (baseFeePerGas blk)))
                              - preOpGas er + 21000 + 50000) 9000
              in if chainId \<in> base_family_chains cs then bigint_quot (110 * cgl) 100
                 else cgl)),
      if op_maxPriorityFeePerGas op = op_maxFeePerGas op then [] else [GetBlock])"
  unfolding calcVerificationGasAndCallGasLimit_def effective_gasPrice_eq [OF assms]
    at_least_9000 base_family_iff
  by (simp add: bigint_div_def Let_def)

text \<open>
  C6. The claim: for every operation and simulation result the limit deriver returns
  \<open>verificationGasLimit\<close> as the floor of \<open>(preOpGas - preVerificationGas) * 3 / 2\<close>
  and \<open>callGasLimit\<close> as the maximum of
  \<open>floor (paid / gasPrice) - preOpGas + 21000 + 50000\<close> and 9000, multiplied by 110 and
  divided by 100 on the Base chains. It fails where \<open>preOpGas < preVerificationGas\<close>:
  the BigInt quotient is rounded towards zero, not down (\<open>truncation_is_not_floor\<close>).

  What holds: whenever the effective gas price is not zero (and the block is read
  when the two fee fields differ), the deriver returns the two limits with both
  quotients rounded towards zero. The first is the floor when
  \<open>preVerificationGas \<le> preOpGas\<close>, the second is the claim's when \<open>0 \<le> paid\<close>. The
  gas price is as the claim says, and so is the markup on the Base chains.
\<close>

theorem calcVerificationGasAndCallGasLimit_result:
  assumes "op_maxPriorityFeePerGas op \<noteq> op_maxFeePerGas op \<longrightarrow> getBlock c = Inr blk"
    and "gasPrice = spec_gasPrice op (baseFeePerGas blk)"
    and "gasPrice \<noteq> 0"
  shows "fst (calcVerificationGasAndCallGasLimit cs c op er chainId) =
       Inr (bigint_quot ((preOpGas er - int (op_preVerificationGas op)) * 3) 2,
            (let cgl = max (bigint_quot (paid er) (int gasPrice)
                             - preOpGas er + 21000 + 50000) 9000
             in if chainId \<in> base_family_chains cs then (110 * cgl) div 100 else cgl))
     \<and> (int (op_preVerificationGas op) \<le> preOpGas er \<longrightarrow>
          bigint_quot ((preOpGas er - int (op_preVerificationGas op)) * 3) 2
            = spec_verificationGasLimit er op)
     \<and> (0 \<le> paid er \<longrightarrow>
          max (bigint_quot (paid er) (int gasPrice) - preOpGas er + 21000 + 50000) 9000
            = spec_callGasLimit er gasPrice)"
proof (intro conjI impI)
  have "bigint_quot (110 * max x 9000) 100 = (110 * max x 9000) div 100" for x :: int
    by (rule bigint_quot_nonneg) simp_all
  then show "fst (calcVerificationGasAndCallGasLimit cs c op er chainId) =
       Inr (bigint_quot ((preOpGas er - int (op_preVerificationGas op)) * 3) 2,
            (let cgl = max (bigint_quot (paid er) (int gasPrice)
                             - preOpGas er + 21000 + 50000) 9000
             in if chainId \<in> base_family_chains cs then (110 * cgl) div 100 else cgl))"
    using assms(3)
    unfolding calcVerificationGasAndCallGasLimit_priced [OF assms(1)] assms(2) [symmetric]
    by (simp add: Let_def)
next
  assume "int (op_preVerificationGas op) \<le> preOpGas er"
  then show "bigint_quot ((preOpGas er - int (op_preVerificationGas op)) * 3) 2
            = spec_verificationGasLimit er op"
    unfolding spec_verificationGasLimit_def by (intro bigint_quot_nonneg) simp_all
next
  assume "0 \<le> paid er"
  with assms(3) have "bigint_quot (paid er) (int gasPrice) = paid er div int gasPrice"
    by (intro bigint_quot_nonneg) simp_all
  then show "max (bigint_quot (paid er) (int gasPrice) - preOpGas er + 21000 + 50000) 9000
            = spec_callGasLimit er gasPrice"
    by (simp add: spec_callGasLimit_def)
qed

theorem calcVerificationGasAndCallGasLimit_result_witness:
  "fst (calcVerificationGasAndCallGasLimit viem_chains sample_client spec_example_op
          spec_example_result 1) = Inr (90000, 71000)
   \<and> fst (calcVerificationGasAndCallGasLimit viem_chains sample_client spec_example_op
          spec_example_result 8453) = Inr (90000, 78100)"
proof -
  have blk: "op_maxPriorityFeePerGas spec_example_op \<noteq> op_maxFeePerGas spec_example_op \<longrightarrow>
      getBlock sample_client = Inr \<lparr> baseFeePerGas = Some 7 \<rparr>"
    by (simp add: sample_client_def)
  have gp: "100 = spec_gasPrice spec_example_op (baseFeePerGas \<lparr> baseFeePerGas = Some 7 \<rparr>)"
    by (simp add: spec_gasPrice_def spec_example_op_def sample_op_def)
  have nz: "(100::nat) \<noteq> 0"
    by simp
  have p: "preOpGas spec_example_result = 100000" "paid spec_example_result = 10000000"
    "op_preVerificationGas spec_example_op = 40000"
    by (simp_all add: spec_example_result_def spec_example_op_def sample_op_def)
  have v: "bigint_quot ((100000 - int 40000) * 3) 2 = 90000"
    "bigint_quot 10000000 (int 100) = 100000"
    by (simp_all add: bigint_quot_def)
  have b: "(1::int) \<notin> base_family_chains viem_chains" "8453 \<in> base_family_chains viem_chains"
    by (simp_all add: base_family_chains_def viem_chains_def)
  from calcVerificationGasAndCallGasLimit_result
      [OF blk gp nz, of viem_chains spec_example_result 1]
    calcVerificationGasAndCallGasLimit_result
      [OF blk gp nz, of viem_chains spec_example_result 8453]
  show ?thesis
    unfolding p v by (simp add: b)
qed

text \<open>
  An operation with \<open>preVerificationGas = 1\<close> and a simulation result with
  \<open>preOpGas = 0\<close>: the source computes \<open>-3 / 2 = -1\<close>, the floor is \<open>-2\<close>.
\<close>

theorem truncation_is_not_floor:
  "fst (calcVerificationGasAndCallGasLimit viem_chains sample_client late_op empty_result 1)
     = Inr (- 1, 71000)
   \<and> spec_verificationGasLimit empty_result late_op = - 2"
  by (simp add: calcVerificationGasAndCallGasLimit_def effective_gasPrice_def Let_def
      late_op_def empty_result_def sample_op_def bigint_quot_def bigint_div_def
      spec_verificationGasLimit_def viem_chains_def)

subsection \<open>The unguarded divisions\<close>

text \<open>
  C10. The divisions by the prices are unguarded. With
  \<open>maxFeePerGas = maxPriorityFeePerGas = 0\<close> the limit deriver raises the
  \<open>RangeError\<close> of a division by zero and makes no call. When the block can be read,
  the limit deriver returns a pair exactly when the effective gas price is not zero; and
  when block, oracle and gas price answer, the Optimism calculator returns a value
  exactly when the L2 price is not zero.
\<close>

theorem unguarded_price_division:
  "(op_maxFeePerGas op = 0 \<and> op_maxPriorityFeePerGas op = 0 \<longrightarrow>
      calcVerificationGasAndCallGasLimit cs c op er chainId
        = (Inl (RangeError ''Division by zero''), []))
   \<and> ((op_maxPriorityFeePerGas op \<noteq> op_maxFeePerGas op \<longrightarrow> getBlock c = Inr blk) \<longrightarrow>
        (\<exists>limits. fst (calcVerificationGasAndCallGasLimit cs c op er chainId) = Inr limits)
          = (spec_gasPrice op (baseFeePerGas blk) \<noteq> 0))
   \<and> (getBlock d = Inr blk' \<and> baseFeePerGas blk' = Some B
        \<and> getL1Fee d (opGasPriceOracle_serializedTx lib d op ep) = Inr F
        \<and> getGasPrice d = Inr gp \<longrightarrow>
        (\<exists>r. fst (calcOptimismPreVerificationGas lib d op ep staticFee) = Inr r)
          = (min (maxFeePerGas gp) (B + maxPriorityFeePerGas gp) \<noteq> 0))"
proof (intro conjI impI)
  assume z: "op_maxFeePerGas op = 0 \<and> op_maxPriorityFeePerGas op = 0"
  then have "op_maxPriorityFeePerGas op \<noteq> op_maxFeePerGas op \<longrightarrow> getBlock c = Inr blk"
    by simp
  from calcVerificationGasAndCallGasLimit_priced [OF this] z
  show "calcVerificationGasAndCallGasLimit cs c op er chainId
        = (Inl (RangeError ''Division by zero''), [])"
    by (simp add: spec_gasPrice_def)
next
  assume "op_maxPriorityFeePerGas op \<noteq> op_maxFeePerGas op \<longrightarrow> getBlock c = Inr blk"
  from calcVerificationGasAndCallGasLimit_priced [OF this]
  show "(\<exists>limits. fst (calcVerificationGasAndCallGasLimit cs c op er chainId) = Inr limits)
          = (spec_gasPrice op (baseFeePerGas blk) \<noteq> 0)"
    by simp
next
  assume "getBlock d = Inr blk' \<and> baseFeePerGas blk' = Some B
        \<and> getL1Fee d (opGasPriceOracle_serializedTx lib d op ep) = Inr F
        \<and> getGasPrice d = Inr gp"
  then have "getBlock d = Inr blk'" "baseFeePerGas blk' = Some B"
    "getL1Fee d (opGasPriceOracle_serializedTx lib d op ep) = Inr F" "getGasPrice d = Inr gp"
    by simp_all
  from calcOptimismPreVerificationGas_priced [OF this]
  have r: "fst (calcOptimismPreVerificationGas lib d op ep staticFee) =
     (if min (maxFeePerGas gp) (B + maxPriorityFeePerGas gp) = 0
      then Inl (RangeError ''Division by zero'')
      else Inr (staticFee + int (F div min (maxFeePerGas gp) (B + maxPriorityFeePerGas gp))))"
    by simp
  show "(\<exists>r. fst (calcOptimismPreVerificationGas lib d op ep staticFee) = Inr r)
          = (min (maxFeePerGas gp) (B + maxPriorityFeePerGas gp) \<noteq> 0)"
    unfolding r by (cases "min (maxFeePerGas gp) (B + maxPriorityFeePerGas gp) = 0") simp_all
qed

theorem unguarded_price_division_witness:
  "calcVerificationGasAndCallGasLimit viem_chains sample_client sample_op empty_result 1
     = (Inl (RangeError ''Division by zero''), [])
   \<and> \<not> (\<exists>limits. fst (calcVerificationGasAndCallGasLimit viem_chains sample_client sample_op
            empty_result 1) = Inr limits)
   \<and> \<not> (\<exists>r. fst (calcOptimismPreVerificationGas sample_lib zero_price_client sample_op 0
            45052) = Inr r)"
  using unguarded_price_division
    [of sample_op viem_chains sample_client empty_result 1 "\<lparr> baseFeePerGas = Some 7 \<rparr>"
      zero_price_client "\<lparr> baseFeePerGas = Some 7 \<rparr>" 7 sample_lib 0 1000
      "\<lparr> maxFeePerGas = 0, maxPriorityFeePerGas = 2 \<rparr>" 45052]
  by (simp add: sample_op_def spec_gasPrice_def zero_price_client_def sample_client_def)

end
